theory Spec2Isabelle
  imports Main
begin

section \<open>Slide controller (packages/app-slide/src/utils/slide.ts)\<close>

text \<open>
  Page numbers and the page count are JavaScript numbers that hold integers; they are
  modelled as \<open>int\<close>. A value that may be \<open>null\<close> or \<open>undefined\<close> is an \<open>option\<close>.
  The renderer (\<open>Slide\<close> of @netless/slide) is opaque: the model keeps the two
  properties the code reads (\<open>slideCount\<close>, \<open>slideState.currentSlideIndex\<close>) and records
  every method the code calls on it, and every callback the code invokes, in the order
  of the calls.
\<close>

type_synonym SyncEvent = string

record SlideState =
  currentSlideIndex :: "int option"
  taskId :: string
  url :: string

record Slide =
  slideCount :: int
  slideState :: SlideState

datatype slide_event =
    SlideChange int
  | RenderStart
  | RenderEnd
  | AnimateStart
  | AnimateEnd
  | MainSeqStepStart
  | MainSeqStepEnd
  | SyncDispatch SyncEvent
  | RenderError string

datatype effect =
    SlideSetSlideState SlideState
  | SlideRenderSlide int
  | SlideEmitSyncReceive SyncEvent
  | SlideDestroy
  | OnPageChanged int
  | OnTransitionStart
  | OnTransitionEnd
  | OnDispatchSyncEvent SyncEvent
  | ConsoleWarn string
  | ResolveReady
  | SetTimeoutPollReadyState nat

record SlideController =
  slide :: Slide
  targetingPage :: int
  calls :: "effect list"

text \<open>
  Modelled from the spec: the helper \<open>clamp\<close> of \<open>./helpers\<close>, which \<open>slide.ts\<close> imports;
  the file is not among the sources. The spec gives the clamped target of a requested
  page \<open>p\<close> as \<open>max(1, min(p, slideCount))\<close>; the arguments are in the order of the call
  \<open>clamp(page, 1, this.slide.slideCount)\<close>.
\<close>

definition clamp :: "int \<Rightarrow> int \<Rightarrow> int \<Rightarrow> int" where
  "clamp v lo hi = max lo (min v hi)"

definition call :: "effect \<Rightarrow> SlideController \<Rightarrow> SlideController" where
  "call e c = c\<lparr>calls := calls c @ [e]\<rparr>"

definition isReady :: "SlideController \<Rightarrow> bool" where
  "isReady c = (slideCount (slide c) > 0)"

definition pollReadyState :: "SlideController \<Rightarrow> SlideController" where
  "pollReadyState c =
     (if isReady c then call ResolveReady c else call (SetTimeoutPollReadyState 500) c)"

text \<open>
  The constructor registers the listeners, starts the renderer from the initial state
  or the initial page, and polls for readiness once: \<open>pollReadyState\<close> resolves the
  promise \<open>ready\<close> or sets a timer of 500 ms for its next run, which the log records. The
  field initialiser \<open>targetingPage = -1\<close> belongs to the constructor.
\<close>

definition new_SlideController :: "Slide \<Rightarrow> SlideState option \<Rightarrow> int \<Rightarrow> SlideController" where
  "new_SlideController s initialState initialPage =
     pollReadyState
       (call (case initialState of
                Some st \<Rightarrow> SlideSetSlideState st
              | None \<Rightarrow> SlideRenderSlide initialPage)
          \<lparr>slide = s, targetingPage = - 1, calls = []\<rparr>)"

text \<open>
  What the listeners registered by the constructor do when the renderer emits an event.
  The listeners of \<open>animateStart\<close> and \<open>animateEnd\<close> are commented out in the source.
\<close>

fun slide_emits :: "slide_event \<Rightarrow> SlideController \<Rightarrow> SlideController" where
  "slide_emits (SlideChange p) c = call (OnPageChanged p) c"
| "slide_emits RenderStart c = call OnTransitionStart c"
| "slide_emits RenderEnd c = call OnTransitionEnd c"
| "slide_emits AnimateStart c = c"
| "slide_emits AnimateEnd c = c"
| "slide_emits MainSeqStepStart c = call OnTransitionStart c"
| "slide_emits MainSeqStepEnd c = call OnTransitionEnd c"
| "slide_emits (SyncDispatch ev) c = call (OnDispatchSyncEvent ev) c"
| "slide_emits (RenderError err) c = call OnTransitionEnd (call (ConsoleWarn err) c)"

definition receiveSyncEvent :: "SyncEvent \<Rightarrow> SlideController \<Rightarrow> SlideController" where
  "receiveSyncEvent ev c = call (SlideEmitSyncReceive ev) c"

definition jumpToPage :: "int \<Rightarrow> SlideController \<Rightarrow> SlideController" where
  "jumpToPage p c =
     (if \<not> isReady c then c
      else let page = clamp p 1 (slideCount (slide c)) in
        if page = targetingPage c then c
        else call (SlideRenderSlide page) (c\<lparr>targetingPage := page\<rparr>))"

definition destroy :: "SlideController \<Rightarrow> SlideController" where
  "destroy c = call SlideDestroy c"

text \<open>A use of the controller: the caller navigates, or the renderer emits an event.\<close>

datatype input = Jump int | Emits slide_event

fun step :: "input \<Rightarrow> SlideController \<Rightarrow> SlideController" where
  "step (Jump p) c = jumpToPage p c"
| "step (Emits e) c = slide_emits e c"

fun run :: "input list \<Rightarrow> SlideController \<Rightarrow> SlideController" where
  "run [] c = c"
| "run (x # xs) c = run xs (step x c)"

section \<open>Scene reconciliation (syncSceneWithSlide)\<close>

text \<open>
  The room of white-web-sdk is a collaborator outside the repository. It is modelled
  by the answer it gives to \<open>scenePathType\<close> and by the list of the calls the code
  makes on it and on the application context, in order.
\<close>

datatype ScenePathType = ScenePathNone | ScenePathDir | ScenePathPage

record SceneDefinition =
  name :: string

record Room =
  scenePathType :: "string \<Rightarrow> ScenePathType"

datatype js_value =
    JUndefined
  | JNull
  | JBoolean bool
  | JNumber int
  | JString string
  | JObject "(string \<times> js_value) list"

datatype host_call =
    CreateWhiteBoardView
  | RoomRemoveScenes string
  | RoomPutScenes string "SceneDefinition list"
  | RoomSetScenePath string
  | RoomDispatchMagixEvent string js_value
  | ContextSetScenePath string
  | ContextUpdateAttributes "string list" js_value
  | PostMessage string js_value

text \<open>
  The decimal text JavaScript gives an integer, in a template literal and in
  \<open>Array.prototype.join\<close>.
\<close>

definition digit_char :: "nat \<Rightarrow> char" where
  "digit_char d = ''0123456789'' ! (d mod 10)"

fun nat_to_string :: "nat \<Rightarrow> string" where
  "nat_to_string n =
     (if n < 10 then [digit_char n]
      else nat_to_string (n div 10) @ [digit_char (n mod 10)])"

declare nat_to_string.simps [simp del]

definition number_to_string :: "int \<Rightarrow> string" where
  "number_to_string i =
     (if i < 0 then ''-'' @ nat_to_string (nat (- i)) else nat_to_string (nat i))"

fun join :: "string list \<Rightarrow> string \<Rightarrow> string" where
  "join [] sep = []"
| "join [x] sep = x"
| "join (x # y # ys) sep = x @ sep @ join (y # ys) sep"

text \<open>The loop \<open>for (let i = 1; i <= count; ++i) scenes.push({ name: `${i}` })\<close>.\<close>

function push_scenes :: "int \<Rightarrow> int \<Rightarrow> SceneDefinition list \<Rightarrow> SceneDefinition list" where
  "push_scenes i count scenes =
     (if i \<le> count
      then push_scenes (i + 1) count (scenes @ [\<lparr>name = number_to_string i\<rparr>])
      else scenes)"
  by pat_completeness auto
termination
  by (relation "measure (\<lambda>(i, count, scenes). nat (count + 1 - i))") auto

declare push_scenes.simps [simp del]

definition syncSceneWithSlide :: "Room \<Rightarrow> Slide \<Rightarrow> string \<Rightarrow> host_call list" where
  "syncSceneWithSlide rm sl baseScenePath =
     (case currentSlideIndex (slideState sl) of
        None \<Rightarrow> []
      | Some page \<Rightarrow>
          let scenePath = join [baseScenePath, number_to_string page] ''/'' in
          (if scenePathType rm scenePath = ScenePathNone
           then [RoomRemoveScenes baseScenePath,
                 RoomPutScenes baseScenePath (push_scenes 1 (slideCount sl) [])]
           else [])
          @ [RoomSetScenePath scenePath])"

section \<open>Embedded page (packages/app-embedded-page/src/index.ts)\<close>

text \<open>
  What \<open>setup\<close> reads from its context: \<open>context.appId\<close>, \<open>context.isWritable\<close>,
  the result of \<open>context.getInitScenePath()\<close> (a string or \<open>undefined\<close>), \<open>context.room\<close>
  (a room or \<open>undefined\<close>) and \<open>displayer.observerId\<close>.
\<close>

record AppContext =
  appId :: string
  isWritable :: bool
  initScenePath :: "string option"
  room :: "Room option"
  observerId :: int

record MagixEvent =
  event :: string
  authorId :: int
  payload :: js_value

fun typeof :: "js_value \<Rightarrow> string" where
  "typeof JUndefined = ''undefined''"
| "typeof JNull = ''object''"
| "typeof (JBoolean b) = ''boolean''"
| "typeof (JNumber n) = ''number''"
| "typeof (JString s) = ''string''"
| "typeof (JObject kvs) = ''object''"

text \<open>
  \<open>setPage\<close> takes the closure variable \<open>whiteboard\<close> (is a view already created?) and
  returns it with the calls made. The condition of its \<open>if\<close> is the conjunction
  \<open>typeof page === "string" && context.isWritable && scenePath && room\<close>: a string is
  truthy when it is not empty.
\<close>

definition setPage :: "AppContext \<Rightarrow> bool \<Rightarrow> js_value \<Rightarrow> bool \<times> host_call list" where
  "setPage context whiteboard page =
     (True,
      (if whiteboard then [] else [CreateWhiteBoardView]) @
      (case page of
         JString p \<Rightarrow>
           (case initScenePath context of
              Some scenePath \<Rightarrow>
                (case room context of
                   Some r \<Rightarrow>
                     if isWritable context \<and> scenePath \<noteq> []
                     then
                       let fullScenePath = join [scenePath, p] ''/'' in
                       (if scenePathType r fullScenePath = ScenePathNone
                        then [RoomPutScenes scenePath [\<lparr>name = p\<rparr>]]
                        else [])
                       @ [ContextSetScenePath fullScenePath,
                          ContextUpdateAttributes [''page''] page]
                     else []
                 | None \<Rightarrow> [])
            | None \<Rightarrow> [])
       | _ \<Rightarrow> []))"

definition magixEventChannel :: "AppContext \<Rightarrow> string" where
  "magixEventChannel context = ''channel-'' @ appId context"

definition sendMagixMessage :: "AppContext \<Rightarrow> js_value \<Rightarrow> host_call list" where
  "sendMagixMessage context message =
     (if isWritable context \<and> room context \<noteq> None
      then [RoomDispatchMagixEvent (magixEventChannel context) message]
      else [])"

definition magixListener :: "AppContext \<Rightarrow> MagixEvent \<Rightarrow> host_call list" where
  "magixListener context e =
     (if event e = magixEventChannel context \<and> authorId e \<noteq> observerId context
      then [PostMessage ''ReceiveMagixMessage'' (payload e)]
      else [])"

section \<open>Observations and sample inputs\<close>

text \<open>The pages the controller has asked the renderer to render, oldest first.\<close>

fun rendered :: "effect list \<Rightarrow> int list" where
  "rendered [] = []"
| "rendered (SlideRenderSlide p # es) = p # rendered es"
| "rendered (e # es) = rendered es"

text \<open>
  \<open>same_target n t x\<close>: the input \<open>x\<close> is an event of the renderer, or a navigation
  whose clamped target in a deck of \<open>n\<close> pages is \<open>t\<close>.
\<close>

fun same_target :: "int \<Rightarrow> int \<Rightarrow> input \<Rightarrow> bool" where
  "same_target n t (Jump q) = (clamp q 1 n = t)"
| "same_target n t (Emits e) = True"

text \<open>A deck of ten pages showing page 1, the same deck before it has loaded, and a
  controller mounted on the loaded deck with initial page 1.\<close>

definition deck :: Slide where
  "deck = \<lparr>slideCount = 10,
           slideState = \<lparr>currentSlideIndex = Some 1, taskId = ''task'', url = ''https://example.org''\<rparr>\<rparr>"

definition loading_deck :: Slide where
  "loading_deck = \<lparr>slideCount = 0,
           slideState = \<lparr>currentSlideIndex = None, taskId = ''task'', url = ''https://example.org''\<rparr>\<rparr>"

definition mounted :: SlideController where
  "mounted = new_SlideController deck None 1"

text \<open>A room that gives every path the same type, and the context of a client with
  write permission whose application was opened on the scene path \<open>/embedded\<close>.\<close>

definition any_room :: "ScenePathType \<Rightarrow> Room" where
  "any_room t = \<lparr>scenePathType = (\<lambda>path. t)\<rparr>"

definition writer :: AppContext where
  "writer = \<lparr>appId = ''app-1'', isWritable = True, initScenePath = Some ''/embedded'',
             room = Some (any_room ScenePathNone), observerId = 7\<rparr>"

section \<open>Properties of the slide controller\<close>

lemma slide_call [simp]: "slide (call e c) = slide c"
  by (simp add: call_def)

lemma targetingPage_call [simp]: "targetingPage (call e c) = targetingPage c"
  by (simp add: call_def)

lemma calls_call [simp]: "calls (call e c) = calls c @ [e]"
  by (simp add: call_def)

lemma isReady_call [simp]: "isReady (call e c) = isReady c"
  by (simp add: isReady_def)

text \<open>
  C5. While the renderer reports no positive page count, \<open>jumpToPage\<close> returns the
  controller as it found it: no call of \<open>renderSlide\<close>, the target page untouched.
\<close>

theorem jumpToPage_not_ready:
  "\<not> isReady c \<Longrightarrow> jumpToPage p c = c"
  by (simp add: jumpToPage_def)

theorem jumpToPage_not_ready_witness:
  "\<not> isReady (new_SlideController loading_deck None 1)
   \<and> jumpToPage 3 (new_SlideController loading_deck None 1) = new_SlideController loading_deck None 1
   \<and> calls (new_SlideController loading_deck None 1)
       = [SlideRenderSlide 1, SetTimeoutPollReadyState 500]
   \<and> targetingPage (new_SlideController loading_deck None 1) = - 1"
proof -
  have h: "\<not> isReady (new_SlideController loading_deck None 1)"
    by (simp add: loading_deck_def new_SlideController_def pollReadyState_def isReady_def)
  show ?thesis using h jumpToPage_not_ready [OF h, of 3]
    by (simp add: loading_deck_def new_SlideController_def pollReadyState_def isReady_def)
qed

subsection \<open>Facts about one navigation\<close>

lemma rendered_append: "rendered (xs @ ys) = rendered xs @ rendered ys"
  by (induction xs rule: rendered.induct) simp_all

lemma slide_slide_emits [simp]: "slide (slide_emits e c) = slide c"
  by (cases e) simp_all

lemma targetingPage_slide_emits [simp]: "targetingPage (slide_emits e c) = targetingPage c"
  by (cases e) simp_all

lemma rendered_slide_emits [simp]: "rendered (calls (slide_emits e c)) = rendered (calls c)"
  by (cases e) (simp_all add: rendered_append)

lemma slide_jumpToPage [simp]: "slide (jumpToPage p c) = slide c"
  by (simp add: jumpToPage_def Let_def)

lemma isReady_jumpToPage [simp]: "isReady (jumpToPage p c) = isReady c"
  by (simp add: isReady_def)

lemma targetingPage_jumpToPage:
  "isReady c \<Longrightarrow> targetingPage (jumpToPage p c) = clamp p 1 (slideCount (slide c))"
  by (simp add: jumpToPage_def Let_def)

lemma calls_jumpToPage:
  "isReady c \<Longrightarrow> calls (jumpToPage p c) =
     calls c @ (if clamp p 1 (slideCount (slide c)) = targetingPage c then []
                else [SlideRenderSlide (clamp p 1 (slideCount (slide c)))])"
  by (simp add: jumpToPage_def Let_def)

lemma jumpToPage_same_target:
  "clamp p 1 (slideCount (slide c)) = targetingPage c \<Longrightarrow> jumpToPage p c = c"
  by (simp add: jumpToPage_def Let_def)

lemma jumpToPage_idem: "jumpToPage p (jumpToPage p c) = jumpToPage p c"
proof (cases "isReady c")
  case True
  then show ?thesis
    by (simp add: jumpToPage_same_target targetingPage_jumpToPage)
next
  case False
  then show ?thesis by (simp add: jumpToPage_def)
qed

lemma slide_run_emits [simp]: "slide (run (map Emits es) c) = slide c"
  by (induction es arbitrary: c) simp_all

lemma targetingPage_run_emits [simp]: "targetingPage (run (map Emits es) c) = targetingPage c"
  by (induction es arbitrary: c) simp_all

lemma clamp_in_range: "0 < n \<Longrightarrow> 1 \<le> clamp p 1 n \<and> clamp p 1 n \<le> n"
  by (simp add: clamp_def)

lemma clamp_of_in_range: "1 \<le> p \<Longrightarrow> p \<le> n \<Longrightarrow> clamp p 1 n = p"
  by (simp add: clamp_def)

lemma funpow_jumpToPage: "(jumpToPage p ^^ Suc n) c = jumpToPage p c"
  by (induction n) (simp_all add: jumpToPage_idem)

lemma funpow_fixed: "f x = x \<Longrightarrow> (f ^^ n) x = x"
  by (induction n) simp_all

lemmas sample_defs =
  mounted_def deck_def loading_deck_def new_SlideController_def
  pollReadyState_def isReady_def jumpToPage_def call_def clamp_def

text \<open>
  C1. A ready controller is asked for page \<open>a\<close>, the renderer emits any events, and the
  controller is asked for page \<open>b\<close> whose clamped value differs from that of \<open>a\<close>. The
  second request adds exactly one call, \<open>renderSlide\<close> of the clamped \<open>b\<close>, and the
  target page is the clamped \<open>b\<close> afterwards, which is not \<open>a\<close>.
\<close>

theorem jumpToPage_redirect:
  assumes ready: "isReady c"
    and diff: "clamp b 1 (slideCount (slide c)) \<noteq> clamp a 1 (slideCount (slide c))"
  shows "let c1 = run (map Emits es) (jumpToPage a c); c2 = jumpToPage b c1 in
           targetingPage c1 = clamp a 1 (slideCount (slide c))
         \<and> calls c2 = calls c1 @ [SlideRenderSlide (clamp b 1 (slideCount (slide c)))]
         \<and> targetingPage c2 = clamp b 1 (slideCount (slide c))
         \<and> targetingPage c2 \<noteq> a"
proof -
  define c1 where "c1 = run (map Emits es) (jumpToPage a c)"
  have s1: "slide c1 = slide c" by (simp add: c1_def)
  have r1: "isReady c1" using ready s1 by (simp add: isReady_def)
  have t1: "targetingPage c1 = clamp a 1 (slideCount (slide c))"
    using ready by (simp add: c1_def targetingPage_jumpToPage)
  have calls2: "calls (jumpToPage b c1) = calls c1 @ [SlideRenderSlide (clamp b 1 (slideCount (slide c)))]"
    using r1 diff by (simp add: calls_jumpToPage s1 t1)
  have t2: "targetingPage (jumpToPage b c1) = clamp b 1 (slideCount (slide c))"
    using r1 by (simp add: targetingPage_jumpToPage s1)
  have "clamp b 1 (slideCount (slide c)) \<noteq> a"
  proof
    assume eq: "clamp b 1 (slideCount (slide c)) = a"
    from ready have pos: "0 < slideCount (slide c)" by (simp add: isReady_def)
    from clamp_in_range [OF pos, of b] eq have "1 \<le> a" "a \<le> slideCount (slide c)" by simp_all
    then have "clamp a 1 (slideCount (slide c)) = a" by (rule clamp_of_in_range)
    with eq diff show False by simp
  qed
  with t1 calls2 t2 show ?thesis by (simp add: c1_def Let_def)
qed

theorem jumpToPage_redirect_witness:
  "isReady mounted \<and> clamp 9 1 (slideCount (slide mounted)) \<noteq> clamp 5 1 (slideCount (slide mounted))
   \<and> calls (run [Emits RenderStart] (jumpToPage 5 mounted))
       = [SlideRenderSlide 1, ResolveReady, SlideRenderSlide 5, OnTransitionStart]
   \<and> calls (jumpToPage 9 (run [Emits RenderStart] (jumpToPage 5 mounted)))
       = [SlideRenderSlide 1, ResolveReady, SlideRenderSlide 5, OnTransitionStart, SlideRenderSlide 9]
   \<and> targetingPage (jumpToPage 9 (run [Emits RenderStart] (jumpToPage 5 mounted))) = 9"
proof -
  have h1: "isReady mounted" by (simp add: sample_defs)
  have h2: "clamp 9 1 (slideCount (slide mounted)) \<noteq> clamp 5 1 (slideCount (slide mounted))"
    by (simp add: sample_defs)
  show ?thesis
    using h1 h2 jumpToPage_redirect [OF h1 h2, of "[RenderStart]"]
    by (simp add: sample_defs)
qed

text \<open>
  C3. In a ready controller the target recorded by \<open>jumpToPage p\<close> is
  \<open>max 1 (min p slideCount)\<close>, the only call it can add is \<open>renderSlide\<close> of that page,
  and it returns normally for every integer \<open>p\<close>.
\<close>

theorem jumpToPage_clamps:
  "isReady c \<Longrightarrow>
     targetingPage (jumpToPage p c) = max 1 (min p (slideCount (slide c)))
   \<and> calls (jumpToPage p c) =
       calls c @ (if max 1 (min p (slideCount (slide c))) = targetingPage c then []
                  else [SlideRenderSlide (max 1 (min p (slideCount (slide c))))])
   \<and> slide (jumpToPage p c) = slide c"
  using targetingPage_jumpToPage [of c p] calls_jumpToPage [of c p]
  by (simp add: clamp_def)

theorem jumpToPage_clamps_witness:
  "isReady mounted
   \<and> targetingPage (jumpToPage 42 mounted) = 10
   \<and> calls (jumpToPage 42 mounted) = calls mounted @ [SlideRenderSlide 10]
   \<and> targetingPage (jumpToPage (- 3) mounted) = 1
   \<and> calls (jumpToPage (- 3) mounted) = calls mounted @ [SlideRenderSlide 1]"
proof -
  have h: "isReady mounted" by (simp add: sample_defs)
  show ?thesis
    using h jumpToPage_clamps [OF h, of 42] jumpToPage_clamps [OF h, of "- 3"]
    by (simp add: sample_defs)
qed

text \<open>
  C4. When the clamped \<open>p\<close> is the target page already, any number of calls of
  \<open>jumpToPage p\<close> leave the controller as it is: no call of \<open>renderSlide\<close>, the same
  target page. In any controller, one call and \<open>n + 1\<close> calls in a row give the same
  controller, hence the same calls on the renderer.
\<close>

theorem jumpToPage_duplicate:
  "(clamp p 1 (slideCount (slide c)) = targetingPage c \<longrightarrow> (jumpToPage p ^^ n) c = c)
   \<and> (jumpToPage p ^^ Suc n) c = jumpToPage p c"
  by (simp add: funpow_jumpToPage funpow_fixed jumpToPage_same_target del: funpow.simps)

theorem jumpToPage_duplicate_witness:
  "clamp 5 1 (slideCount (slide (jumpToPage 5 mounted))) = targetingPage (jumpToPage 5 mounted)
   \<and> (jumpToPage 5 ^^ 3) (jumpToPage 5 mounted) = jumpToPage 5 mounted
   \<and> calls ((jumpToPage 5 ^^ 3) (jumpToPage 5 mounted))
       = [SlideRenderSlide 1, ResolveReady, SlideRenderSlide 5]"
proof -
  have h: "clamp 5 1 (slideCount (slide (jumpToPage 5 mounted))) = targetingPage (jumpToPage 5 mounted)"
    by (simp add: sample_defs)
  have "calls (jumpToPage 5 mounted) = [SlideRenderSlide 1, ResolveReady, SlideRenderSlide 5]"
    by (simp add: sample_defs)
  with h jumpToPage_duplicate [of 5 "jumpToPage 5 mounted" 3] show ?thesis
    by simp
qed

text \<open>
  C7. When the renderer emits \<open>renderError\<close>, the controller logs a warning and invokes
  the transition-end callback, exactly as \<open>renderEnd\<close> does after the warning; it makes
  no call of \<open>renderSlide\<close> and changes nothing else.
\<close>

theorem renderError_ends_transition:
  "slide_emits (RenderError err) c = c\<lparr>calls := calls c @ [ConsoleWarn err, OnTransitionEnd]\<rparr>
   \<and> slide_emits (RenderError err) c = slide_emits RenderEnd (call (ConsoleWarn err) c)
   \<and> rendered (calls (slide_emits (RenderError err) c)) = rendered (calls c)"
  by (simp add: call_def rendered_append)

subsection \<open>Facts about runs of the controller\<close>

lemma not_ready_run:
  "\<not> isReady c \<Longrightarrow> targetingPage (run xs c) = targetingPage c \<and> slide (run xs c) = slide c"
proof (induction xs arbitrary: c)
  case Nil
  then show ?case by simp
next
  case (Cons x xs)
  have "targetingPage (step x c) = targetingPage c \<and> slide (step x c) = slide c"
    using Cons.prems by (cases x) (simp_all add: jumpToPage_def)
  moreover from this Cons.prems have "\<not> isReady (step x c)" by (simp add: isReady_def)
  ultimately show ?case using Cons.IH [of "step x c"] by simp
qed

lemma same_target_step:
  assumes "same_target (slideCount (slide c)) (targetingPage c) x"
  shows "targetingPage (step x c) = targetingPage c \<and> slide (step x c) = slide c
         \<and> rendered (calls (step x c)) = rendered (calls c)"
  using assms by (cases x) (simp_all add: jumpToPage_same_target)

lemma same_target_run:
  "list_all (same_target (slideCount (slide c)) (targetingPage c)) xs \<Longrightarrow>
     targetingPage (run xs c) = targetingPage c \<and> slide (run xs c) = slide c
     \<and> rendered (calls (run xs c)) = rendered (calls c)"
proof (induction xs arbitrary: c)
  case Nil
  then show ?case by simp
next
  case (Cons x xs)
  from Cons.prems have x: "same_target (slideCount (slide c)) (targetingPage c) x" by simp
  note st = same_target_step [OF x]
  from Cons.prems st
  have "list_all (same_target (slideCount (slide (step x c))) (targetingPage (step x c))) xs"
    by simp
  from Cons.IH [OF this] st show ?case by simp
qed

lemma clamp_not_initial: "clamp p 1 n \<noteq> - 1"
  by (simp add: clamp_def)

lemma targetingPage_new [simp]: "targetingPage (new_SlideController s st pg) = - 1"
  by (simp add: new_SlideController_def pollReadyState_def)

lemma slide_new [simp]: "slide (new_SlideController s st pg) = s"
  by (simp add: new_SlideController_def pollReadyState_def)

lemma first_jump_renders:
  "isReady c \<Longrightarrow> targetingPage c = - 1 \<Longrightarrow>
     jumpToPage p c =
       call (SlideRenderSlide (clamp p 1 (slideCount (slide c))))
         (c\<lparr>targetingPage := clamp p 1 (slideCount (slide c))\<rparr>)"
  using clamp_not_initial [of p "slideCount (slide c)"]
  by (simp add: jumpToPage_def Let_def)

lemma targetingPage_changes_with_render:
  "targetingPage (jumpToPage p c) \<noteq> targetingPage c \<Longrightarrow>
     calls (jumpToPage p c) = calls c @ [SlideRenderSlide (targetingPage (jumpToPage p c))]"
  by (simp add: jumpToPage_def Let_def split: if_splits)

lemma later_jump_suppressed:
  assumes ready: "isReady c"
    and same: "list_all (same_target (slideCount (slide c)) (clamp p 1 (slideCount (slide c)))) xs"
    and eq: "clamp p' 1 (slideCount (slide c)) = clamp p 1 (slideCount (slide c))"
  shows "jumpToPage p' ((run xs (jumpToPage p c))\<lparr>slide := (slide c)\<lparr>slideState := st'\<rparr>\<rparr>)
           = (run xs (jumpToPage p c))\<lparr>slide := (slide c)\<lparr>slideState := st'\<rparr>\<rparr>"
    and "rendered (calls (run xs (jumpToPage p c))) = rendered (calls (jumpToPage p c))"
proof -
  let ?c1 = "jumpToPage p c"
  have t1: "targetingPage ?c1 = clamp p 1 (slideCount (slide c))"
    using ready by (rule targetingPage_jumpToPage)
  from same t1 have "list_all (same_target (slideCount (slide ?c1)) (targetingPage ?c1)) xs"
    by simp
  note r = same_target_run [OF this]
  from r show "rendered (calls (run xs ?c1)) = rendered (calls ?c1)" by simp
  from r t1 eq
  show "jumpToPage p' ((run xs ?c1)\<lparr>slide := (slide c)\<lparr>slideState := st'\<rparr>\<rparr>)
           = (run xs ?c1)\<lparr>slide := (slide c)\<lparr>slideState := st'\<rparr>\<rparr>"
    by (intro jumpToPage_same_target) simp
qed

text \<open>
  C10. The target page is \<open>-1\<close> after construction; no event of the renderer changes
  it, and \<open>jumpToPage\<close> changes it only together with a call of \<open>renderSlide\<close> of the
  new target. So after \<open>jumpToPage p\<close> in a ready controller, followed by any events
  (\<open>renderEnd\<close> and \<open>renderError\<close> among them) and navigations with the same clamped
  target, whatever page the renderer then shows, \<open>jumpToPage p'\<close> with the same clamped
  target does nothing, and nothing was rendered in between. A ready controller whose
  target page is still \<open>-1\<close> renders on \<open>jumpToPage\<close>; this is the case of the first
  navigation after the deck has loaded, whatever was requested or emitted before.
\<close>

theorem targetingPage_persists:
  "targetingPage (new_SlideController s st pg) = - 1
   \<and> targetingPage (slide_emits e c) = targetingPage c
   \<and> (targetingPage (jumpToPage p c) \<noteq> targetingPage c \<longrightarrow>
        calls (jumpToPage p c) = calls c @ [SlideRenderSlide (targetingPage (jumpToPage p c))])
   \<and> (isReady c
        \<and> list_all (same_target (slideCount (slide c)) (clamp p 1 (slideCount (slide c)))) xs
        \<and> clamp p' 1 (slideCount (slide c)) = clamp p 1 (slideCount (slide c)) \<longrightarrow>
        jumpToPage p' ((run xs (jumpToPage p c))\<lparr>slide := (slide c)\<lparr>slideState := st'\<rparr>\<rparr>)
          = (run xs (jumpToPage p c))\<lparr>slide := (slide c)\<lparr>slideState := st'\<rparr>\<rparr>
        \<and> rendered (calls (run xs (jumpToPage p c))) = rendered (calls (jumpToPage p c)))
   \<and> (isReady c \<and> targetingPage c = - 1 \<longrightarrow>
        jumpToPage p c =
          call (SlideRenderSlide (clamp p 1 (slideCount (slide c))))
            (c\<lparr>targetingPage := clamp p 1 (slideCount (slide c))\<rparr>))
   \<and> (\<not> isReady (new_SlideController s st pg) \<and> 0 < slideCount s' \<longrightarrow>
        calls (jumpToPage p ((run ys (new_SlideController s st pg))\<lparr>slide := s'\<rparr>))
          = calls (run ys (new_SlideController s st pg)) @ [SlideRenderSlide (clamp p 1 (slideCount s'))])"
proof (intro conjI impI)
  show "targetingPage (new_SlideController s st pg) = - 1" by simp
  show "targetingPage (slide_emits e c) = targetingPage c" by simp
  show "calls (jumpToPage p c) = calls c @ [SlideRenderSlide (targetingPage (jumpToPage p c))]"
    if "targetingPage (jumpToPage p c) \<noteq> targetingPage c"
    using that by (rule targetingPage_changes_with_render)
  show "jumpToPage p' ((run xs (jumpToPage p c))\<lparr>slide := (slide c)\<lparr>slideState := st'\<rparr>\<rparr>)
          = (run xs (jumpToPage p c))\<lparr>slide := (slide c)\<lparr>slideState := st'\<rparr>\<rparr>"
    if "isReady c
        \<and> list_all (same_target (slideCount (slide c)) (clamp p 1 (slideCount (slide c)))) xs
        \<and> clamp p' 1 (slideCount (slide c)) = clamp p 1 (slideCount (slide c))"
    using that later_jump_suppressed(1) by blast
  show "rendered (calls (run xs (jumpToPage p c))) = rendered (calls (jumpToPage p c))"
    if "isReady c
        \<and> list_all (same_target (slideCount (slide c)) (clamp p 1 (slideCount (slide c)))) xs
        \<and> clamp p' 1 (slideCount (slide c)) = clamp p 1 (slideCount (slide c))"
    using that later_jump_suppressed(2) by blast
  show "jumpToPage p c =
          call (SlideRenderSlide (clamp p 1 (slideCount (slide c))))
            (c\<lparr>targetingPage := clamp p 1 (slideCount (slide c))\<rparr>)"
    if "isReady c \<and> targetingPage c = - 1"
    using that by (simp add: first_jump_renders)
  show "calls (jumpToPage p ((run ys (new_SlideController s st pg))\<lparr>slide := s'\<rparr>))
          = calls (run ys (new_SlideController s st pg)) @ [SlideRenderSlide (clamp p 1 (slideCount s'))]"
    if h: "\<not> isReady (new_SlideController s st pg) \<and> 0 < slideCount s'"
  proof -
    let ?c0 = "(run ys (new_SlideController s st pg))\<lparr>slide := s'\<rparr>"
    from h not_ready_run [of "new_SlideController s st pg" ys]
    have "targetingPage ?c0 = - 1" by simp
    moreover from h have "isReady ?c0" by (simp add: isReady_def)
    ultimately show ?thesis by (simp add: first_jump_renders)
  qed
qed


theorem targetingPage_persists_witness:
  "targetingPage (jumpToPage 42 mounted) \<noteq> targetingPage mounted
   \<and> calls (jumpToPage 42 mounted) = calls mounted @ [SlideRenderSlide 10]
   \<and> isReady mounted
   \<and> list_all (same_target (slideCount (slide mounted)) (clamp 42 1 (slideCount (slide mounted))))
        [Emits RenderStart, Jump 99, Emits RenderEnd, Emits (RenderError ''boom''), Emits (SlideChange 3)]
   \<and> clamp 10 1 (slideCount (slide mounted)) = clamp 42 1 (slideCount (slide mounted))
   \<and> rendered (calls (jumpToPage 10
        ((run [Emits RenderStart, Jump 99, Emits RenderEnd, Emits (RenderError ''boom''), Emits (SlideChange 3)]
           (jumpToPage 42 mounted))
         \<lparr>slide := (slide mounted)\<lparr>slideState := \<lparr>currentSlideIndex = Some 3, taskId = ''task'', url = ''u''\<rparr>\<rparr>\<rparr>)))
       = [1, 10]
   \<and> targetingPage mounted = - 1
   \<and> \<not> isReady (new_SlideController loading_deck None 1) \<and> 0 < slideCount deck
   \<and> calls (jumpToPage 42 ((run [Jump 4, Emits RenderStart] (new_SlideController loading_deck None 1))\<lparr>slide := deck\<rparr>))
       = [SlideRenderSlide 1, SetTimeoutPollReadyState 500, OnTransitionStart, SlideRenderSlide 10]"
  using targetingPage_persists [where s = loading_deck and st = None and pg = 1 and e = RenderEnd
      and c = mounted and p = 42 and p' = 10
      and xs = "[Emits RenderStart, Jump 99, Emits RenderEnd, Emits (RenderError ''boom''), Emits (SlideChange 3)]"
      and st' = "\<lparr>currentSlideIndex = Some 3, taskId = ''task'', url = ''u''\<rparr>"
      and s' = deck and ys = "[Jump 4, Emits RenderStart]"]
  by (simp add: sample_defs)

section \<open>Properties of the scene reconciliation\<close>

lemma digit_char_inj: "digit_char d = digit_char e \<Longrightarrow> d mod 10 = e mod 10"
proof -
  assume h: "digit_char d = digit_char e"
  have "distinct ''0123456789''" by simp
  moreover have "d mod 10 < length ''0123456789''" "e mod 10 < length ''0123456789''" by simp_all
  ultimately show ?thesis using h unfolding digit_char_def
    by (simp only: nth_eq_iff_index_eq)
qed

lemma nat_to_string_snoc:
  "nat_to_string n = (if n < 10 then [] else nat_to_string (n div 10)) @ [digit_char (n mod 10)]"
  by (subst nat_to_string.simps) simp

lemma nat_to_string_not_Nil: "nat_to_string n \<noteq> []"
  by (subst nat_to_string_snoc) simp

lemma nat_to_string_inj: "nat_to_string n = nat_to_string m \<Longrightarrow> n = m"
proof (induction n arbitrary: m rule: nat_to_string.induct)
  case (1 n)
  from "1.prems"
  have eq: "(if n < 10 then [] else nat_to_string (n div 10)) @ [digit_char (n mod 10)]
          = (if m < 10 then [] else nat_to_string (m div 10)) @ [digit_char (m mod 10)]"
    using nat_to_string_snoc [of n] nat_to_string_snoc [of m] by simp
  then have last: "n mod 10 = m mod 10"
    using digit_char_inj [of "n mod 10" "m mod 10"] by simp
  from eq have front: "(if n < 10 then [] else nat_to_string (n div 10))
          = (if m < 10 then [] else nat_to_string (m div 10))" by simp
  have "n div 10 = m div 10"
  proof (cases "n < 10")
    case True
    with front have "m < 10" using nat_to_string_not_Nil [of "m div 10"] by (simp split: if_splits)
    with True show ?thesis by simp
  next
    case False
    with front have m: "\<not> m < 10" using nat_to_string_not_Nil [of "n div 10"] by (simp split: if_splits)
    with False front have "nat_to_string (n div 10) = nat_to_string (m div 10)" by simp
    with False "1.IH" show ?thesis by simp
  qed
  with last show ?case by (metis div_mult_mod_eq)
qed

lemma number_to_string_inj_on: "inj_on number_to_string {0..}"
  by (rule inj_onI) (auto simp add: number_to_string_def dest: nat_to_string_inj)

lemma distinct_scene_names:
  "distinct (map name (map (\<lambda>i. \<lparr>name = number_to_string i\<rparr>) [1..n]))"
proof -
  have "inj_on number_to_string (set [1..n])"
    by (rule inj_on_subset [OF number_to_string_inj_on]) auto
  then show ?thesis by (simp add: distinct_map comp_def)
qed

lemma push_scenes_eq:
  "push_scenes i n scenes = scenes @ map (\<lambda>j. \<lparr>name = number_to_string j\<rparr>) [i..n]"
proof (induction i n scenes rule: push_scenes.induct)
  case (1 i count scenes)
  show ?case
  proof (cases "i \<le> count")
    case True
    then have "[i..count] = i # [i + 1..count]" by (simp add: upto_rec1)
    with True 1 show ?thesis by (simp add: push_scenes.simps [of i])
  next
    case False
    then show ?thesis by (simp add: push_scenes.simps [of i])
  qed
qed

text \<open>
  C2. With a current page \<open>k\<close>: when the room answers \<open>none\<close> for the path
  \<open>base/k\<close>, the calls are \<open>removeScenes(base)\<close>, then \<open>putScenes\<close> at \<open>base\<close> of the scenes
  named by the decimal texts of \<open>1, \<dots>, slideCount\<close> (as many as \<open>slideCount\<close>, under
  distinct names), then \<open>setScenePath(base/k)\<close>; on any other answer the only call is
  \<open>setScenePath(base/k)\<close>.
\<close>

theorem syncSceneWithSlide_repair:
  assumes "currentSlideIndex (slideState sl) = Some k"
  shows "(scenePathType rm (base @ ''/'' @ number_to_string k) = ScenePathNone \<longrightarrow>
            syncSceneWithSlide rm sl base =
              [RoomRemoveScenes base,
               RoomPutScenes base (map (\<lambda>i. \<lparr>name = number_to_string i\<rparr>) [1..slideCount sl]),
               RoomSetScenePath (base @ ''/'' @ number_to_string k)]
          \<and> length (map (\<lambda>i. \<lparr>name = number_to_string i\<rparr>) [1..slideCount sl]) = nat (slideCount sl)
          \<and> distinct (map name (map (\<lambda>i. \<lparr>name = number_to_string i\<rparr>) [1..slideCount sl])))
       \<and> (scenePathType rm (base @ ''/'' @ number_to_string k) \<noteq> ScenePathNone \<longrightarrow>
            syncSceneWithSlide rm sl base = [RoomSetScenePath (base @ ''/'' @ number_to_string k)])"
  using assms distinct_scene_names [of "slideCount sl"]
  by (simp add: syncSceneWithSlide_def push_scenes_eq)

theorem syncSceneWithSlide_repair_witness:
  "currentSlideIndex (slideState (deck\<lparr>slideCount := 3\<rparr>)) = Some 1
   \<and> syncSceneWithSlide (any_room ScenePathNone) (deck\<lparr>slideCount := 3\<rparr>) ''/ppt'' =
       [RoomRemoveScenes ''/ppt'',
        RoomPutScenes ''/ppt'' [\<lparr>name = ''1''\<rparr>, \<lparr>name = ''2''\<rparr>, \<lparr>name = ''3''\<rparr>],
        RoomSetScenePath ''/ppt/1'']
   \<and> syncSceneWithSlide (any_room ScenePathPage) (deck\<lparr>slideCount := 3\<rparr>) ''/ppt'' =
       [RoomSetScenePath ''/ppt/1'']"
proof -
  have h: "currentSlideIndex (slideState (deck\<lparr>slideCount := 3\<rparr>)) = Some 1"
    by (simp add: deck_def)
  have n: "number_to_string 1 = ''1''" "number_to_string 2 = ''2''" "number_to_string 3 = ''3''"
    by (simp_all add: number_to_string_def nat_to_string.simps digit_char_def)
  have u: "[1..3::int] = [1, 2, 3]" by (simp add: upto.simps)
  show ?thesis
    using h syncSceneWithSlide_repair [OF h, of "any_room ScenePathNone" "''/ppt''"]
      syncSceneWithSlide_repair [OF h, of "any_room ScenePathPage" "''/ppt''"]
    by (simp add: any_room_def deck_def n u)
qed

text \<open>
  C8. When the renderer has no current page yet (\<open>currentSlideIndex\<close> is \<open>null\<close> or
  \<open>undefined\<close>), \<open>syncSceneWithSlide\<close> makes no call at all: it removes no scene,
  creates none and sets no scene path.
\<close>

theorem syncSceneWithSlide_uninitialised:
  "currentSlideIndex (slideState sl) = None \<Longrightarrow> syncSceneWithSlide rm sl base = []"
  by (simp add: syncSceneWithSlide_def)

theorem syncSceneWithSlide_uninitialised_witness:
  "currentSlideIndex (slideState loading_deck) = None
   \<and> syncSceneWithSlide (any_room ScenePathNone) loading_deck ''/ppt'' = []"
proof -
  have h: "currentSlideIndex (slideState loading_deck) = None" by (simp add: loading_deck_def)
  show ?thesis
    using h syncSceneWithSlide_uninitialised [OF h, of "any_room ScenePathNone" "''/ppt''"]
    by simp
qed

section \<open>Properties of the embedded page\<close>

text \<open>
  C6. An event whose author is the local observer posts nothing to the embedded page,
  on whatever channel it arrives: no \<open>ReceiveMagixMessage\<close> carries a client's own
  broadcast back to it.
\<close>

theorem magixListener_own_event:
  "authorId e = observerId ctx \<Longrightarrow> magixListener ctx e = []"
  by (simp add: magixListener_def)

theorem magixListener_own_event_witness:
  "authorId \<lparr>event = ''channel-app-1'', authorId = 7, payload = JString ''sync''\<rparr> = observerId writer
   \<and> magixListener writer \<lparr>event = ''channel-app-1'', authorId = 7, payload = JString ''sync''\<rparr> = []
   \<and> magixListener writer \<lparr>event = ''channel-app-1'', authorId = 8, payload = JString ''sync''\<rparr>
       = [PostMessage ''ReceiveMagixMessage'' (JString ''sync'')]"
proof -
  have h: "authorId \<lparr>event = ''channel-app-1'', authorId = 7, payload = JString ''sync''\<rparr> = observerId writer"
    by (simp add: writer_def)
  have "magixListener writer \<lparr>event = ''channel-app-1'', authorId = 8, payload = JString ''sync''\<rparr>
       = [PostMessage ''ReceiveMagixMessage'' (JString ''sync'')]"
    by (simp add: magixListener_def magixEventChannel_def writer_def)
  with h magixListener_own_event [OF h] show ?thesis by simp
qed

text \<open>
  C9, as the claim states it, fails: a client with write permission sends the string
  \<open>"2"\<close>, but its application was opened without an initial scene path; \<open>setPage\<close>
  creates the whiteboard view and persists nothing.
\<close>

theorem setPage_unconditional_counterexample:
  "isWritable (writer\<lparr>initScenePath := None\<rparr>)
   \<and> typeof (JString ''2'') = ''string''
   \<and> snd (setPage (writer\<lparr>initScenePath := None\<rparr>) False (JString ''2'')) = [CreateWhiteBoardView]
   \<and> ContextUpdateAttributes [''page''] (JString ''2'')
       \<notin> set (snd (setPage (writer\<lparr>initScenePath := None\<rparr>) False (JString ''2'')))"
  by (simp add: setPage_def writer_def)

text \<open>
  C9, amended. Without write permission, or with a page that is not a string, or without
  a non-empty initial scene path, or without a room, \<open>setPage\<close> at most creates the
  whiteboard view: it puts no scene, sets no scene path and updates no attribute. With
  write permission, a string page, a non-empty initial scene path and a room, it puts the
  scene named by the page when the room answers \<open>none\<close> for the full path, then sets the
  scene path, then stores the page in the attribute \<open>page\<close>.
\<close>

theorem setPage_guarded:
  "((\<not> isWritable ctx \<or> typeof page \<noteq> ''string'' \<or> initScenePath ctx = None
       \<or> initScenePath ctx = Some [] \<or> room ctx = None)
      \<longrightarrow> snd (setPage ctx wb page) = (if wb then [] else [CreateWhiteBoardView]))
   \<and> (isWritable ctx \<and> page = JString p \<and> initScenePath ctx = Some sp \<and> sp \<noteq> []
        \<and> room ctx = Some r
      \<longrightarrow> snd (setPage ctx wb page) =
            (if wb then [] else [CreateWhiteBoardView])
            @ (if scenePathType r (sp @ ''/'' @ p) = ScenePathNone
               then [RoomPutScenes sp [\<lparr>name = p\<rparr>]] else [])
            @ [ContextSetScenePath (sp @ ''/'' @ p), ContextUpdateAttributes [''page''] (JString p)])"
  by (cases page) (auto simp add: setPage_def split: option.splits)

theorem setPage_guarded_witness:
  "\<not> isWritable (writer\<lparr>isWritable := False\<rparr>)
   \<and> snd (setPage (writer\<lparr>isWritable := False\<rparr>) False (JString ''2'')) = [CreateWhiteBoardView]
   \<and> typeof (JNumber 2) \<noteq> ''string''
   \<and> snd (setPage writer True (JNumber 2)) = []
   \<and> isWritable writer \<and> initScenePath writer = Some ''/embedded''
   \<and> room writer = Some (any_room ScenePathNone)
   \<and> snd (setPage writer False (JString ''2'')) =
       [CreateWhiteBoardView, RoomPutScenes ''/embedded'' [\<lparr>name = ''2''\<rparr>],
        ContextSetScenePath ''/embedded/2'', ContextUpdateAttributes [''page''] (JString ''2'')]"
  using setPage_guarded [where ctx = "writer\<lparr>isWritable := False\<rparr>" and page = "JString ''2''" and wb = False]
    setPage_guarded [where ctx = writer and page = "JNumber 2" and wb = True]
    setPage_guarded [where ctx = writer and page = "JString ''2''" and p = "''2''" and sp = "''/embedded''"
      and r = "any_room ScenePathNone" and wb = False]
  by (simp add: writer_def any_room_def)

end
